theory Spec2Isabelle
  imports Complex_Main "HOL-Library.Char_ord" "HOL-Library.List_Lexorder"
    "HOL-Library.Product_Lexorder"
begin

section \<open>Float64 values\<close>

text \<open>
  The numeric columns of the pipeline are numpy/polars Float64. A value is a finite
  number, one of the two infinities, or NaN. Finite values are modelled as exact reals:
  rounding, overflow of a finite result and the sign of zero are not modelled. The
  special values follow IEEE 754 as numpy applies it elementwise (a division by zero
  gives an infinity or NaN and a warning, never an exception).
\<close>

datatype float64 = Fin real | PInf | NInf | NaN

fun isfinite :: "float64 \<Rightarrow> bool" where
  "isfinite (Fin x) = True"
| "isfinite _ = False"

fun isnan :: "float64 \<Rightarrow> bool" where
  "isnan NaN = True"
| "isnan _ = False"

fun fneg :: "float64 \<Rightarrow> float64" where
  "fneg (Fin x) = Fin (- x)"
| "fneg PInf = NInf"
| "fneg NInf = PInf"
| "fneg NaN = NaN"

fun fadd :: "float64 \<Rightarrow> float64 \<Rightarrow> float64" where
  "fadd (Fin x) (Fin y) = Fin (x + y)"
| "fadd NaN _ = NaN"
| "fadd _ NaN = NaN"
| "fadd PInf NInf = NaN"
| "fadd NInf PInf = NaN"
| "fadd PInf _ = PInf"
| "fadd NInf _ = NInf"
| "fadd _ PInf = PInf"
| "fadd _ NInf = NInf"

definition fsub :: "float64 \<Rightarrow> float64 \<Rightarrow> float64" where
  "fsub a b = fadd a (fneg b)"

text \<open>The sign of an infinity scaled by a finite factor; zero times infinity is NaN.\<close>

definition scale_inf :: "real \<Rightarrow> float64 \<Rightarrow> float64" where
  "scale_inf x i = (if x = 0 then NaN else if 0 < x then i else fneg i)"

fun fmul :: "float64 \<Rightarrow> float64 \<Rightarrow> float64" where
  "fmul (Fin x) (Fin y) = Fin (x * y)"
| "fmul NaN _ = NaN"
| "fmul _ NaN = NaN"
| "fmul (Fin x) i = scale_inf x i"
| "fmul i (Fin y) = scale_inf y i"
| "fmul PInf i = i"
| "fmul NInf i = fneg i"

fun fdiv :: "float64 \<Rightarrow> float64 \<Rightarrow> float64" where
  "fdiv (Fin x) (Fin y) =
     (if y = 0 then (if x = 0 then NaN else if 0 < x then PInf else NInf)
      else Fin (x / y))"
| "fdiv NaN _ = NaN"
| "fdiv _ NaN = NaN"
| "fdiv (Fin x) _ = Fin 0"
| "fdiv i (Fin y) = (if 0 \<le> y then i else fneg i)"
| "fdiv _ _ = NaN"

text \<open>Comparison: every comparison with NaN is false.\<close>

fun fle :: "float64 \<Rightarrow> float64 \<Rightarrow> bool" where
  "fle (Fin x) (Fin y) = (x \<le> y)"
| "fle NaN _ = False"
| "fle _ NaN = False"
| "fle NInf _ = True"
| "fle _ PInf = True"
| "fle _ _ = False"

text \<open>\<open>np.maximum\<close> and \<open>np.minimum\<close> propagate NaN.\<close>

definition fmaximum :: "float64 \<Rightarrow> float64 \<Rightarrow> float64" where
  "fmaximum a b = (if isnan a \<or> isnan b then NaN else if fle a b then b else a)"

definition fminimum :: "float64 \<Rightarrow> float64 \<Rightarrow> float64" where
  "fminimum a b = (if isnan a \<or> isnan b then NaN else if fle a b then a else b)"

text \<open>\<open>np.clip(x, lo, hi)\<close> is \<open>minimum(maximum(x, lo), hi)\<close>.\<close>

definition fclip :: "float64 \<Rightarrow> float64 \<Rightarrow> float64 \<Rightarrow> float64" where
  "fclip x lo hi = fminimum (fmaximum x lo) hi"

text \<open>Sum and mean of a column, left to right from zero; the mean of no values is 0/0.\<close>

definition fsum :: "float64 list \<Rightarrow> float64" where
  "fsum xs = foldl fadd (Fin 0) xs"

definition fmean :: "float64 list \<Rightarrow> float64" where
  "fmean xs = fdiv (fsum xs) (Fin (real (length xs)))"

text \<open>
  A nullable polars column holds \<open>None\<close> for null. \<open>to_numpy\<close> on a float column
  turns null into NaN.
\<close>

fun to_numpy :: "float64 option \<Rightarrow> float64" where
  "to_numpy None = NaN"
| "to_numpy (Some v) = v"

section \<open>Errors\<close>

text \<open>
  Exceptions are values. \<open>TypeError\<close> is Python's (\<open>float(None)\<close>), \<open>ValueError\<close> is
  raised by \<open>predict_daily\<close> itself, by numpy when two arrays do not broadcast and by
  scikit-learn when it validates an input, \<open>ShapeError\<close> is polars' when columns of
  one frame differ in length, and \<open>LibraryError\<close> stands for whatever else the scaler
  or the regressor raises.
\<close>

datatype error = TypeError | ValueError | ShapeError | LibraryError string

text \<open>
  An elementwise numpy operation on two one-dimensional arrays: equal lengths pair up,
  an array of length one is broadcast, anything else raises.
\<close>

definition np_binop ::
  "(float64 \<Rightarrow> float64 \<Rightarrow> float64) \<Rightarrow> float64 list \<Rightarrow> float64 list \<Rightarrow> error + float64 list" where
  "np_binop f xs ys =
     (if length xs = length ys then Inr (map2 f xs ys)
      else if length xs = 1 then Inr (map (f (hd xs)) ys)
      else if length ys = 1 then Inr (map (\<lambda>x. f x (hd ys)) xs)
      else Inl ValueError)"

text \<open>The element an array contributes to position \<open>i\<close> of such an operation.\<close>

definition bcast :: "'a list \<Rightarrow> nat \<Rightarrow> 'a" where
  "bcast xs i = (if length xs = 1 then hd xs else xs ! i)"

section \<open>Calendar\<close>

text \<open>
  A polars \<open>Date\<close> is a number of days since 1970-01-01 in the proleptic Gregorian
  calendar. \<open>civil\<close> gives the year, month and day of a date and \<open>days_from_civil\<close>
  is its inverse; they stand for polars' \<open>dt.year()\<close>, \<open>dt.month()\<close>, \<open>dt.day()\<close>
  and \<open>pl.datetime(year, month, day)\<close>.
\<close>

type_synonym date = int

definition civil :: "date \<Rightarrow> int \<times> int \<times> int" where
  "civil z0 =
     (let z = z0 + 719468;
          era = z div 146097;
          doe = z - era * 146097;
          yoe = (doe - doe div 1460 + doe div 36524 - doe div 146096) div 365;
          doy = doe - (365 * yoe + yoe div 4 - yoe div 100);
          mp = (5 * doy + 2) div 153;
          d = doy - (153 * mp + 2) div 5 + 1;
          m = (if mp < 10 then mp + 3 else mp - 9);
          y = yoe + era * 400 + (if m \<le> 2 then 1 else 0)
      in (y, m, d))"

definition days_from_civil :: "int \<Rightarrow> int \<Rightarrow> int \<Rightarrow> date" where
  "days_from_civil y0 m d =
     (let y = (if m \<le> 2 then y0 - 1 else y0);
          era = y div 400;
          yoe = y - era * 400;
          doy = (153 * (if 2 < m then m - 3 else m + 9) + 2) div 5 + d - 1;
          doe = yoe * 365 + yoe div 4 - yoe div 100 + doy
      in era * 146097 + doe - 719468)"

definition year_of :: "date \<Rightarrow> int" where
  "year_of d = fst (civil d)"

definition month_of :: "date \<Rightarrow> int" where
  "month_of d = fst (snd (civil d))"

definition day_of :: "date \<Rightarrow> int" where
  "day_of d = snd (snd (civil d))"

definition ordinal_day :: "date \<Rightarrow> int" where
  "ordinal_day d = d - days_from_civil (year_of d) 1 1 + 1"

text \<open>
  \<open>pl.date_range(start, end, interval="1d", eager=True)\<close>: every day from start to end,
  both included, ascending; empty when end precedes start.
\<close>

definition date_range :: "date \<Rightarrow> date \<Rightarrow> date list" where
  "date_range start end = [start..end]"

text \<open>\<open>dt.truncate("1w")\<close>: the Monday of the date's week (1970-01-01 was a Thursday).\<close>

definition week_start :: "date \<Rightarrow> date" where
  "week_start d = d - (d + 3) mod 7"

section \<open>Tables and joins\<close>

text \<open>
  A table is a list of rows. \<open>left.join(right, on=key, how="left")\<close> keeps every left
  row, in order, once for each right row with the same key, and once with a null when
  there is none. A nullable right column joined this way is null in both cases.
\<close>

definition join_left :: "('a \<Rightarrow> 'k) \<Rightarrow> 'a list \<Rightarrow> ('k \<times> 'v) list \<Rightarrow> ('a \<times> 'v option) list" where
  "join_left key ls rs =
     concat (map (\<lambda>l. case filter (\<lambda>r. fst r = key l) rs of
                          [] \<Rightarrow> [(l, None)]
                        | ms \<Rightarrow> map (\<lambda>r. (l, Some (snd r))) ms) ls)"

fun flatten_null :: "'v option option \<Rightarrow> 'v option" where
  "flatten_null None = None"
| "flatten_null (Some v) = v"

fun fill_null :: "float64 option \<Rightarrow> float64 \<Rightarrow> float64" where
  "fill_null None d = d"
| "fill_null (Some v) d = v"

text \<open>The non-null values of a column, and polars' \<open>mean()\<close>, which skips nulls and is
  null when nothing is left.\<close>

definition non_null :: "'v option list \<Rightarrow> 'v list" where
  "non_null col = concat (map (\<lambda>v. case v of None \<Rightarrow> [] | Some x \<Rightarrow> [x]) col)"

definition col_mean :: "float64 option list \<Rightarrow> float64 option" where
  "col_mean col = (if non_null col = [] then None else Some (fmean (non_null col)))"

section \<open>Feature engineering\<close>

definition gauss_bump :: "real \<Rightarrow> real \<Rightarrow> real" where
  "gauss_bump days_to_center sigma = exp (- 0.5 * (days_to_center / sigma)\<^sup>2)"

definition days_to_anchor :: "date \<Rightarrow> int \<Rightarrow> int \<Rightarrow> real" where
  "days_to_anchor d month day = real_of_int (d - days_from_civil (year_of d) month day)"

text \<open>One row of \<open>build_features\<close> without its date: the ten feature columns in the
  order of the final \<open>select\<close>.\<close>

definition feature_row :: "date \<Rightarrow> real list" where
  "feature_row d =
     (let year_len = 365.25;
          two_pi = 2 * pi;
          doy = real_of_int (ordinal_day d);
          month = month_of d;
          day = day_of d
      in [sin (doy * (two_pi / year_len)),
          cos (doy * (two_pi / year_len)),
          sin (doy * (2 * two_pi / year_len)),
          cos (doy * (2 * two_pi / year_len)),
          gauss_bump (days_to_anchor d 9 1) 20,
          gauss_bump (days_to_anchor d 2 1) 15,
          gauss_bump (days_to_anchor d 1 31) 12,
          gauss_bump (days_to_anchor d 6 30) 12,
          (if month = 7 \<or> month = 8 then 1 else 0),
          (if (month = 12 \<and> 20 \<le> day) \<or> (month = 1 \<and> day \<le> 7) then 1 else 0)])"

definition build_features :: "date list \<Rightarrow> (date \<times> real list) list" where
  "build_features dates = map (\<lambda>d. (d, feature_row d)) dates"

section \<open>Monthly multiplier\<close>

text \<open>
  \<open>vals ** strength\<close> for a finite exponent, with the special cases of IEEE \<open>pow\<close>.
\<close>

definition fpow :: "float64 \<Rightarrow> real \<Rightarrow> float64" where
  "fpow b s =
     (if s = 0 then Fin 1
      else case b of
        NaN \<Rightarrow> NaN
      | Fin x \<Rightarrow>
          (if 0 < x then Fin (x powr s)
           else if x = 0 then (if 0 < s then Fin 0 else PInf)
           else if s = of_int \<lfloor>s\<rfloor> then Fin (x powi \<lfloor>s\<rfloor>)
           else NaN)
      | PInf \<Rightarrow> (if 0 < s then PInf else Fin 0)
      | NInf \<Rightarrow>
          (if 0 < s then (if s = of_int \<lfloor>s\<rfloor> \<and> odd \<lfloor>s\<rfloor> then NInf else PInf)
           else Fin 0))"

text \<open>
  \<open>unique(subset=["month"]).sort("month")\<close>: one row for each month that occurs,
  ascending. polars does not say which of several rows of a month it keeps, so the
  choice among the candidates of a month is the parameter \<open>keep\<close>.
\<close>

definition unique_months ::
  "(float64 option list \<Rightarrow> float64 option) \<Rightarrow> (int \<times> float64 option) list \<Rightarrow> (int \<times> float64 option) list" where
  "unique_months keep tm =
     sort_key fst
       (map (\<lambda>m. (m, keep (map snd (filter (\<lambda>r. fst r = m) tm)))) (remdups (map fst tm)))"

text \<open>The value column after the join with the months 1 to 12, nulls still in it.\<close>

definition scaffold :: "(float64 option list \<Rightarrow> float64 option) \<Rightarrow> (int \<times> float64 option) list \<Rightarrow> float64 option list" where
  "scaffold keep tm = map (flatten_null \<circ> snd) (join_left id [1..12] (unique_months keep tm))"

text \<open>Circular smoothing: the mean of the values at \<open>(i + k) % 12\<close> for \<open>k\<close> from
  \<open>-smooth_radius\<close> to \<open>smooth_radius\<close>. The array always has 12 entries
  (lemma \<open>length_scaffold\<close>), so the index is in range.\<close>

definition smooth :: "int \<Rightarrow> float64 list \<Rightarrow> float64 list" where
  "smooth smooth_radius vals =
     map (\<lambda>i. fmean (map (\<lambda>k. vals ! nat ((i + k) mod 12)) [- smooth_radius..smooth_radius]))
       [0..11]"

text \<open>Lines 157 to 169: the array \<open>vals\<close> before smoothing. With no value at all the
  mean is null and \<open>float(None)\<close> raises.\<close>

definition month_values ::
  "(float64 option list \<Rightarrow> float64 option) \<Rightarrow> (int \<times> float64 option) list \<Rightarrow> error + float64 list" where
  "month_values keep trends_monthly =
     (let s = scaffold keep trends_monthly in
      case col_mean s of
        None \<Rightarrow> Inl TypeError
      | Some mu \<Rightarrow> Inr (map (\<lambda>v. fill_null v mu) s))"

definition trends_monthly_multiplier ::
  "(float64 option list \<Rightarrow> float64 option) \<Rightarrow> (int \<times> float64 option) list \<Rightarrow> real \<Rightarrow> int
     \<Rightarrow> error + (int \<times> float64) list" where
  "trends_monthly_multiplier keep trends_monthly strength smooth_radius =
     (case month_values keep trends_monthly of
        Inl e \<Rightarrow> Inl e
      | Inr vals \<Rightarrow>
          (let vals1 = (if 0 < smooth_radius then smooth smooth_radius vals else vals);
               vals2 = map (\<lambda>v. fdiv v (fmean vals1)) vals1;
               vals3 = (if strength \<noteq> 1 then map (\<lambda>v. fpow v strength) vals2 else vals2)
           in Inr (zip [1..12] vals3)))"

section \<open>Fit and predict\<close>

text \<open>
  The scaler and the regressor are scikit-learn objects. A fitted scaler is its
  \<open>transform\<close> and a fitted regressor is its \<open>predict(x, return_std=True)\<close>, each of
  which may raise; a prediction that is not a pair of arrays is \<open>None\<close>.
\<close>

type_synonym scaler = "real list list \<Rightarrow> error + real list list"

type_synonym regressor = "real list list \<Rightarrow> error + (float64 list \<times> float64 list) option"

fun col_min :: "int list \<Rightarrow> int" where
  "col_min (x # xs) = fold min xs x"
| "col_min [] = 0"

text \<open>Weekly means. Every group has at least one row, so \<open>col_min\<close> is never asked
  for the minimum of nothing.\<close>

definition aggregate_weekly :: "(date \<times> float64 option) list \<Rightarrow> (date \<times> float64 option) list" where
  "aggregate_weekly df =
     sort_key fst
       (map (\<lambda>w. let g = filter (\<lambda>r. week_start (fst r) = w) df
                 in (col_min (map fst g), col_mean (map snd g)))
            (remdups (map (week_start \<circ> fst) df)))"

text \<open>
  The multiplier of each date: the left join on the month, nulls filled with 1.0, and
  every value that is not finite set to 1.0. Fitting and prediction build it the same
  way (lines 225 to 231 and 286 to 293).
\<close>

definition clean_multiplier :: "float64 option \<Rightarrow> float64" where
  "clean_multiplier v = (let m = fill_null v (Fin 1) in if isfinite m then m else Fin 1)"

definition month_multiplier_array :: "date list \<Rightarrow> (int \<times> float64 option) list \<Rightarrow> float64 list" where
  "month_multiplier_array dates month_mult =
     map (\<lambda>r. clean_multiplier (flatten_null (snd r))) (join_left month_of dates month_mult)"

text \<open>The weekly table of a fit: its dates and its target array \<open>y\<close>.\<close>

definition weekly_table :: "(date \<times> float64 option) list \<Rightarrow> (date \<times> float64 option) list" where
  "weekly_table df = aggregate_weekly (sort_key fst df)"

definition weekly_targets :: "(date \<times> float64 option) list \<Rightarrow> float64 list" where
  "weekly_targets df = map (to_numpy \<circ> snd) (weekly_table df)"

text \<open>Lines 224 to 232: the targets handed to the regressor.\<close>

definition deseasonalize ::
  "(date \<times> real list) list \<Rightarrow> float64 list \<Rightarrow> (int \<times> float64 option) list option
     \<Rightarrow> error + float64 list" where
  "deseasonalize feats y month_mult =
     (case month_mult of
        None \<Rightarrow> Inr y
      | Some t \<Rightarrow> np_binop fdiv y (month_multiplier_array (map fst feats) t))"

definition fit_gp_with_calendar ::
  "(real list list \<Rightarrow> error + scaler \<times> real list list)
     \<Rightarrow> (real list list \<Rightarrow> float64 list \<Rightarrow> error + regressor)
     \<Rightarrow> (date \<times> float64 option) list \<Rightarrow> (int \<times> float64 option) list option
     \<Rightarrow> error + regressor \<times> scaler \<times> ((date \<times> real list) \<times> float64) list" where
  "fit_gp_with_calendar fit_transform gp_fit df month_mult =
     (let feats = build_features (map fst (weekly_table df)) in
      case deseasonalize feats (weekly_targets df) month_mult of
        Inl e \<Rightarrow> Inl e
      | Inr y \<Rightarrow>
          (case fit_transform (map snd feats) of
             Inl e \<Rightarrow> Inl e
           | Inr (scaler, x) \<Rightarrow>
               (case gp_fit x y of
                  Inl e \<Rightarrow> Inl e
                | Inr gp \<Rightarrow>
                    if length y = length feats then Inr (gp, scaler, zip feats y)
                    else Inl ShapeError)))"

record pred_row =
  contract_date :: date
  pred_mean :: float64
  pred_lo :: float64
  pred_hi :: float64

text \<open>The inner function \<open>prediction\<close>: the bounds are numpy operations on the two
  arrays, and the frame needs four columns of one length.\<close>

definition prediction :: "float64 list \<Rightarrow> float64 list \<Rightarrow> date list \<Rightarrow> error + pred_row list" where
  "prediction mean std dates =
     (case np_binop fsub mean (map (fmul (Fin 1.96)) std) of
        Inl e \<Rightarrow> Inl e
      | Inr lo0 \<Rightarrow>
          (case np_binop fadd mean (map (fmul (Fin 1.96)) std) of
             Inl e \<Rightarrow> Inl e
           | Inr hi \<Rightarrow>
               (let lo = map (\<lambda>v. fmaximum v (Fin 0)) lo0 in
                if length mean = length dates \<and> length lo = length dates
                   \<and> length hi = length dates
                then Inr (map (\<lambda>i. \<lparr>contract_date = dates ! i, pred_mean = mean ! i,
                                      pred_lo = lo ! i, pred_hi = hi ! i\<rparr>)
                              [0..<length dates])
                else Inl ShapeError)))"

definition predict_daily ::
  "regressor \<Rightarrow> scaler \<Rightarrow> date \<Rightarrow> date \<Rightarrow> (int \<times> float64 option) list option
     \<Rightarrow> error + pred_row list" where
  "predict_daily gp scaler start end month_mult =
     (let dates = date_range start end;
          feats = build_features dates
      in case scaler (map snd feats) of
           Inl e \<Rightarrow> Inl e
         | Inr x \<Rightarrow>
             (case gp x of
                Inl e \<Rightarrow> Inl e
              | Inr None \<Rightarrow> Inl ValueError
              | Inr (Some (mean_ds, std_ds)) \<Rightarrow>
                  (case month_mult of
                     None \<Rightarrow> prediction mean_ds std_ds dates
                   | Some t \<Rightarrow>
                       (let mm = month_multiplier_array dates t in
                        case np_binop fmul mean_ds mm of
                          Inl e \<Rightarrow> Inl e
                        | Inr mean \<Rightarrow>
                            (case np_binop fmul std_ds mm of
                               Inl e \<Rightarrow> Inl e
                             | Inr std \<Rightarrow> prediction mean std dates)))))"

section \<open>Filling missing values\<close>

record filled_row = pred_row +
  registration_time :: "float64 option"
  registration_time_filled :: float64
  filled :: bool

definition fill_missing_with_gp :: "(date \<times> float64 option) list \<Rightarrow> pred_row list \<Rightarrow> filled_row list" where
  "fill_missing_with_gp df_obs df_pred =
     map (\<lambda>(p, v). let reg = flatten_null v in
            pred_row.extend p
              \<lparr>registration_time = reg,
               registration_time_filled = (case reg of Some x \<Rightarrow> x | None \<Rightarrow> pred_mean p),
               filled = (reg = None)\<rparr>)
         (join_left contract_date df_pred df_obs)"

section \<open>Probability score\<close>

text \<open>\<open>math.erf\<close> is the parameter \<open>erf\<close> on the reals; on the special values it is
  \<open>erf(inf) = 1\<close>, \<open>erf(-inf) = -1\<close> and \<open>erf(nan) = nan\<close>.\<close>

fun erf_np :: "(real \<Rightarrow> real) \<Rightarrow> float64 \<Rightarrow> float64" where
  "erf_np erf (Fin x) = Fin (erf x)"
| "erf_np erf PInf = Fin 1"
| "erf_np erf NInf = Fin (- 1)"
| "erf_np erf NaN = NaN"

text \<open>
  \<open>np.vectorize(f)(*any_array)\<close> unpacks the array into one positional argument for
  each element. \<open>f\<close> takes one argument, so the call returns a single number for an
  array of one element and raises \<open>TypeError\<close> for an empty array (\<open>f()\<close>) and for a
  longer one (\<open>f(a, b, ...)\<close>). The single number is then broadcast into the frame.
\<close>

fun typed_vectorize :: "(float64 \<Rightarrow> float64) \<Rightarrow> float64 list \<Rightarrow> error + float64" where
  "typed_vectorize f [] = Inl TypeError"
| "typed_vectorize f [a] = Inr (f a)"
| "typed_vectorize f (a # b # rest) = Inl TypeError"

datatype direction = at_least | at_most

record scored_row = pred_row +
  my_time :: float64
  prob_good_enough :: float64
  ci_pct :: float64

definition add_prob_good_enough ::
  "(real \<Rightarrow> real) \<Rightarrow> pred_row list \<Rightarrow> (date \<Rightarrow> float64) \<Rightarrow> direction \<Rightarrow> error + scored_row list" where
  "add_prob_good_enough erf df_pred my_time_fn direction =
     (let lo = map pred_lo df_pred;
          hi = map pred_hi df_pred;
          mu = map pred_mean df_pred;
          m = map (my_time_fn \<circ> contract_date) df_pred;
          sigma = map2 (\<lambda>h l. fmaximum (fdiv (fsub h l) (Fin (2 * 1.96))) (Fin (1 / 10 ^ 9))) hi lo;
          z = map2 fdiv (map2 fsub m mu) sigma
      in case typed_vectorize (erf_np erf) (map (\<lambda>v. fdiv v (Fin (sqrt 2))) z) of
           Inl e \<Rightarrow> Inl e
         | Inr e \<Rightarrow>
             (let cdf = fmul (Fin 0.5) (fadd (Fin 1) e);
                  prob = (if direction = at_least then cdf else fsub (Fin 1) cdf);
                  denom = map2 fsub hi lo;
                  ci_pos = map2 (\<lambda>a d. fclip (fdiv a d) (Fin 0) (Fin 1)) (map2 fsub m lo) denom
              in Inr (map (\<lambda>i. pred_row.extend (df_pred ! i)
                                  \<lparr>my_time = m ! i,
                                   prob_good_enough = fmul prob (Fin 100),
                                   ci_pct = fmul (ci_pos ! i) (Fin 100)\<rparr>)
                          [0..<length df_pred])))"

section \<open>Segments (generate.py)\<close>

record rented =
  rr_contract_date :: "date option"
  rr_registration_time :: "float64 option"
  rr_city :: string
  rr_type_of_room :: string

record labelled_row = pred_row +
  city :: "string option"
  type_of_room :: "string option"

definition MIN_ROWS_FOR_GP :: nat where
  "MIN_ROWS_FOR_GP = 20"

text \<open>\<open>select("contract_date", "registration_time").drop_nulls()\<close>.\<close>

definition drop_nulls :: "rented list \<Rightarrow> (date \<times> float64) list" where
  "drop_nulls df =
     concat (map (\<lambda>r. case (rr_contract_date r, rr_registration_time r) of
                         (Some d, Some v) \<Rightarrow> [(d, v)]
                       | _ \<Rightarrow> []) df)"

text \<open>
  \<open>_fit_and_predict\<close>. The fit runs inside \<open>try\<close>, the prediction does not. \<open>today\<close>
  is \<open>dt.date.today()\<close> and \<open>round1\<close> is polars' \<open>round(1)\<close>; the date column is kept
  as a date, its rendering as text is not modelled.
\<close>

definition fit_and_predict ::
  "(real list list \<Rightarrow> error + scaler \<times> real list list)
     \<Rightarrow> (real list list \<Rightarrow> float64 list \<Rightarrow> error + regressor)
     \<Rightarrow> (float64 \<Rightarrow> float64) \<Rightarrow> date
     \<Rightarrow> rented list \<Rightarrow> int \<Rightarrow> string option \<Rightarrow> string option \<Rightarrow> error + labelled_row list" where
  "fit_and_predict fit_transform gp_fit round1 today df horizon_days c t =
     (let model_df = drop_nulls df in
      if length model_df < MIN_ROWS_FOR_GP then Inr []
      else
        case fit_gp_with_calendar fit_transform gp_fit (map (\<lambda>r. (fst r, Some (snd r))) model_df) None of
          Inl e \<Rightarrow> Inr []
        | Inr (gp, scaler, x_train) \<Rightarrow>
            (let start = col_min (map fst model_df);
                 end = today + horizon_days
             in case predict_daily gp scaler start end None of
                  Inl e \<Rightarrow> Inl e
                | Inr preds \<Rightarrow>
                    Inr (map (\<lambda>p. pred_row.extend
                                      (p\<lparr>pred_mean := round1 (pred_mean p),
                                         pred_lo := round1 (pred_lo p),
                                         pred_hi := round1 (pred_hi p)\<rparr>)
                                      \<lparr>city = c, type_of_room = t\<rparr>) preds)))"

text \<open>The segments of \<open>compute_all_predictions\<close> in the order it visits them: all
  rows, every city, every pair of city and room type.\<close>

definition segments :: "rented list \<Rightarrow> (rented list \<times> string option \<times> string option) list" where
  "segments df =
     (df, None, None)
     # map (\<lambda>c. (filter (\<lambda>r. rr_city r = c) df, Some c, None))
           (sort (remdups (map rr_city df)))
     @ map (\<lambda>(c, t). (filter (\<lambda>r. rr_city r = c \<and> rr_type_of_room r = t) df, Some c, Some t))
           (sort (remdups (map (\<lambda>r. (rr_city r, rr_type_of_room r)) df)))"

text \<open>\<open>results.extend(_fit_and_predict(...))\<close> segment after segment; an exception of
  one call ends the run.\<close>

fun extend_all ::
  "(rented list \<Rightarrow> string option \<Rightarrow> string option \<Rightarrow> error + labelled_row list)
     \<Rightarrow> (rented list \<times> string option \<times> string option) list \<Rightarrow> error + labelled_row list" where
  "extend_all fp [] = Inr []"
| "extend_all fp ((d, c, t) # segs) =
     (case fp d c t of
        Inl e \<Rightarrow> Inl e
      | Inr rows \<Rightarrow>
          (case extend_all fp segs of
             Inl e \<Rightarrow> Inl e
           | Inr rest \<Rightarrow> Inr (rows @ rest)))"

definition compute_all_predictions ::
  "(real list list \<Rightarrow> error + scaler \<times> real list list)
     \<Rightarrow> (real list list \<Rightarrow> float64 list \<Rightarrow> error + regressor)
     \<Rightarrow> (float64 \<Rightarrow> float64) \<Rightarrow> date
     \<Rightarrow> rented list \<Rightarrow> int \<Rightarrow> error + labelled_row list" where
  "compute_all_predictions fit_transform gp_fit round1 today df horizon_days =
     extend_all (\<lambda>d c t. fit_and_predict fit_transform gp_fit round1 today d horizon_days c t)
       (segments df)"

section \<open>Fitted objects for the examples\<close>

text \<open>
  A fitted \<open>StandardScaler\<close>: scikit-learn validates the input of \<open>transform\<close> and
  raises \<open>ValueError\<close> for a matrix without rows; otherwise every column is centred and
  scaled, here with mean 0.5 and scale 0.5. A fitted regressor that validates its input
  the same way and predicts the same mean and standard deviation for every row.
\<close>

definition example_scaler :: scaler where
  "example_scaler x = (if x = [] then Inl ValueError else Inr (map (map (\<lambda>v. (v - 1 / 2) * 2)) x))"

definition example_regressor :: "real \<Rightarrow> real \<Rightarrow> regressor" where
  "example_regressor m s x =
     (if x = [] then Inl ValueError else Inr (Some (map (\<lambda>v. Fin m) x, map (\<lambda>v. Fin s) x)))"

section \<open>Joins on a key that occurs once\<close>

lemma filter_key_distinct:
  "distinct (map fst rs) \<Longrightarrow>
     filter (\<lambda>r. fst r = k) rs = (case map_of rs k of None \<Rightarrow> [] | Some v \<Rightarrow> [(k, v)])"
proof (induction rs)
  case Nil
  then show ?case by simp
next
  case (Cons r rs)
  obtain a b where r: "r = (a, b)" by (cases r)
  show ?case
  proof (cases "a = k")
    case True
    with Cons.prems r have "k \<notin> fst ` set rs" by auto
    then have "filter (\<lambda>r. fst r = k) rs = []"
      by (auto simp: filter_empty_conv)
    with True r show ?thesis by simp
  next
    case False
    with Cons r show ?thesis by simp
  qed
qed

lemma join_left_distinct:
  "distinct (map fst rs) \<Longrightarrow> join_left key ls rs = map (\<lambda>l. (l, map_of rs (key l))) ls"
  by (induction ls) (auto simp: join_left_def filter_key_distinct split: option.splits)

lemma month_multiplier_array_distinct:
  "distinct (map fst t) \<Longrightarrow>
     month_multiplier_array dates t
       = map (\<lambda>d. clean_multiplier (flatten_null (map_of t (month_of d)))) dates"
  by (simp add: month_multiplier_array_def join_left_distinct)

lemma isfinite_clean_multiplier: "isfinite (clean_multiplier v)"
  by (simp add: clean_multiplier_def Let_def)

lemma fdiv_one [simp]: "fdiv a (Fin 1) = a"
  by (cases a) auto

lemma fmul_one [simp]: "fmul a (Fin 1) = a"
  by (cases a) (auto simp: scale_inf_def)

section \<open>Rows of a prediction\<close>

lemma hd_length_one: "length xs = Suc 0 \<Longrightarrow> hd xs = xs ! 0"
  by (cases xs) auto

lemma np_binop_Inr:
  assumes "np_binop f xs ys = Inr zs"
  shows "(length xs = length zs \<or> length xs = 1) \<and> (length ys = length zs \<or> length ys = 1)
       \<and> (\<forall>i<length zs. zs ! i = f (bcast xs i) (bcast ys i))"
proof -
  consider (eq) "length xs = length ys"
    | (l) "length xs \<noteq> length ys" "length xs = 1"
    | (r) "length xs \<noteq> length ys" "length xs \<noteq> 1" "length ys = 1"
    | (bad) "length xs \<noteq> length ys" "length xs \<noteq> 1" "length ys \<noteq> 1"
    by blast
  then show ?thesis
  proof cases
    case eq
    with assms have zs: "zs = map2 f xs ys" by (simp add: np_binop_def)
    with eq show ?thesis
      by (auto simp: bcast_def hd_length_one)
  next
    case l
    with assms have "zs = map (f (hd xs)) ys" by (simp add: np_binop_def)
    with l show ?thesis by (auto simp: bcast_def hd_length_one)
  next
    case r
    with assms have "zs = map (\<lambda>x. f x (hd ys)) xs" by (simp add: np_binop_def)
    with r show ?thesis by (auto simp: bcast_def)
  next
    case bad
    with assms show ?thesis by (simp add: np_binop_def)
  qed
qed

lemma bcast_map: "xs \<noteq> [] \<Longrightarrow> (length xs = 1 \<or> i < length xs) \<Longrightarrow> bcast (map g xs) i = g (bcast xs i)"
  by (auto simp: bcast_def hd_map)

lemma prediction_rows:
  assumes "prediction mean std dates = Inr rows"
  shows "length rows = length dates \<and> length mean = length dates
       \<and> (length std = length dates \<or> length std = 1)
       \<and> (\<forall>i<length dates.
            rows ! i = \<lparr>contract_date = dates ! i, pred_mean = mean ! i,
                        pred_lo = fmaximum (fsub (mean ! i) (fmul (Fin 1.96) (bcast std i))) (Fin 0),
                        pred_hi = fadd (mean ! i) (fmul (Fin 1.96) (bcast std i))\<rparr>)"
proof -
  let ?s = "map (fmul (Fin 1.96)) std"
  from assms obtain lo0 hi where
    lo0: "np_binop fsub mean ?s = Inr lo0" and hi: "np_binop fadd mean ?s = Inr hi"
    and len: "length mean = length dates" "length lo0 = length dates" "length hi = length dates"
    and rows: "rows = map (\<lambda>i. \<lparr>contract_date = dates ! i, pred_mean = mean ! i,
                 pred_lo = map (\<lambda>v. fmaximum v (Fin 0)) lo0 ! i, pred_hi = hi ! i\<rparr>) [0..<length dates]"
    by (auto simp: prediction_def Let_def split: sum.splits if_splits)
  note L = np_binop_Inr [OF lo0] and H = np_binop_Inr [OF hi]
  have slen: "length std = length dates \<or> length std = 1"
    using L len by auto
  have "rows ! i = \<lparr>contract_date = dates ! i, pred_mean = mean ! i,
                        pred_lo = fmaximum (fsub (mean ! i) (fmul (Fin 1.96) (bcast std i))) (Fin 0),
                        pred_hi = fadd (mean ! i) (fmul (Fin 1.96) (bcast std i))\<rparr>"
    if i: "i < length dates" for i
  proof -
    have ne: "std \<noteq> []" using slen i by auto
    have b: "bcast ?s i = fmul (Fin 1.96) (bcast std i)"
      using bcast_map [OF ne, of i "fmul (Fin 1.96)"] slen i by auto
    have m: "bcast mean i = mean ! i"
      using len i by (auto simp: bcast_def hd_length_one)
    have "lo0 ! i = fsub (mean ! i) (fmul (Fin 1.96) (bcast std i))"
      using L len i b m by auto
    moreover have "hi ! i = fadd (mean ! i) (fmul (Fin 1.96) (bcast std i))"
      using H len i b m by auto
    ultimately show ?thesis using rows i len by simp
  qed
  with rows len slen show ?thesis by simp
qed

lemma bounds_ordered:
  assumes "isfinite m" "fle (Fin 0) m" "isfinite s" "fle (Fin 0) s"
  shows "fle (Fin 0) (fmaximum (fsub m (fmul (Fin 1.96) s)) (Fin 0))
       \<and> fle (fmaximum (fsub m (fmul (Fin 1.96) s)) (Fin 0)) m
       \<and> fle m (fadd m (fmul (Fin 1.96) s))"
  using assms by (cases m; cases s) (auto simp: fmaximum_def fsub_def)

lemma predict_daily_Inr:
  assumes "predict_daily gp scaler start end month_mult = Inr rows"
  shows "\<exists>mean std. prediction mean std (date_range start end) = Inr rows"
  using assms
  by (auto simp: predict_daily_def Let_def split: sum.splits option.splits prod.splits)

lemma np_binop_onto:
  assumes "length ys = n" and "length xs = n \<or> length xs = 1"
  shows "np_binop f xs ys = Inr (map (\<lambda>i. f (bcast xs i) (ys ! i)) [0..<n])"
proof (cases "length xs = length ys")
  case True
  have "map2 f xs ys = map (\<lambda>i. f (bcast xs i) (ys ! i)) [0..<n]"
    using True assms by (auto simp: list_eq_iff_nth_eq bcast_def hd_length_one)
  with True show ?thesis by (simp add: np_binop_def)
next
  case False
  with assms have one: "length xs = 1" by auto
  have "map (f (hd xs)) ys = map (\<lambda>i. f (bcast xs i) (ys ! i)) [0..<n]"
    using one assms by (auto simp: list_eq_iff_nth_eq bcast_def)
  with False one show ?thesis by (simp add: np_binop_def)
qed

lemma prediction_same_length:
  assumes "length mean = length dates" and "length std = length dates"
  shows "prediction mean std dates
           = Inr (map (\<lambda>i. \<lparr>contract_date = dates ! i, pred_mean = mean ! i,
                    pred_lo = fmaximum (fsub (mean ! i) (fmul (Fin 1.96) (std ! i))) (Fin 0),
                    pred_hi = fadd (mean ! i) (fmul (Fin 1.96) (std ! i))\<rparr>) [0..<length dates])"
  using assms by (simp add: prediction_def np_binop_def)

lemma prediction_dates:
  assumes "prediction mean std dates = Inr rows"
  shows "map contract_date rows = dates"
  using prediction_rows [OF assms] by (auto simp: list_eq_iff_nth_eq)

lemma length_date_range: "start \<le> end \<Longrightarrow> length (date_range start end) = nat (end - start + 1)"
  by (simp add: date_range_def)

lemma predict_daily_answered:
  assumes "scaler (map snd (build_features (date_range start end))) = Inr x"
    and "gp x = Inr (Some (mean_ds, std_ds))"
    and "length mean_ds = length (date_range start end)"
    and "length std_ds = length (date_range start end)"
  shows "predict_daily gp scaler start end None
           = Inr (map (\<lambda>i. \<lparr>contract_date = date_range start end ! i, pred_mean = mean_ds ! i,
                    pred_lo = fmaximum (fsub (mean_ds ! i) (fmul (Fin 1.96) (std_ds ! i))) (Fin 0),
                    pred_hi = fadd (mean_ds ! i) (fmul (Fin 1.96) (std_ds ! i))\<rparr>)
                  [0..<length (date_range start end)])"
  using assms prediction_same_length [OF assms(3,4)] by (simp add: predict_daily_def Let_def)

text \<open>
  Where the regressor answers a day with a mean and a standard deviation that are both
  finite and not negative, the row of that day is ordered: \<open>0 \<le> lo \<le> mean \<le> hi\<close>.
\<close>

lemma predict_daily_ordered_row:
  assumes "scaler (map snd (build_features (date_range start end))) = Inr x"
    and "gp x = Inr (Some (mean_ds, std_ds))"
    and "length mean_ds = length (date_range start end)"
    and "length std_ds = length (date_range start end)"
    and "i < length (date_range start end)"
    and "mean_ds ! i = Fin m" and "0 \<le> m" and "std_ds ! i = Fin s" and "0 \<le> s"
  shows "\<exists>rows. predict_daily gp scaler start end None = Inr rows
            \<and> pred_mean (rows ! i) = Fin m
            \<and> fle (Fin 0) (pred_lo (rows ! i))
            \<and> fle (pred_lo (rows ! i)) (pred_mean (rows ! i))
            \<and> fle (pred_mean (rows ! i)) (pred_hi (rows ! i))"
  using bounds_ordered [of "Fin m" "Fin s"] assms(5-9)
  by (simp add: predict_daily_answered [of scaler start "end" x gp mean_ds std_ds, OF assms(1-4)])

text \<open>
  C1 on the code. \<open>predict_daily\<close> clamps \<open>lo\<close> at 0 and leaves the mean as the regressor
  gives it. Whenever the scaler accepts the feature matrix and the regressor answers
  with one mean and one standard deviation for each day, a day with a negative mean
  \<open>m\<close> and a standard deviation \<open>s \<ge> 0\<close> gets a row with \<open>mean = m\<close> and \<open>lo = 0\<close>:
  \<open>lo\<close> is above the mean, and \<open>lo \<le> mean\<close> fails.
\<close>

theorem predict_daily_negative_mean:
  assumes "scaler (map snd (build_features (date_range start end))) = Inr x"
    and "gp x = Inr (Some (mean_ds, std_ds))"
    and "length mean_ds = length (date_range start end)"
    and "length std_ds = length (date_range start end)"
    and "i < length (date_range start end)"
    and "mean_ds ! i = Fin m" and "m < 0" and "std_ds ! i = Fin s" and "0 \<le> s"
  shows "\<exists>rows. predict_daily gp scaler start end None = Inr rows
            \<and> length rows = length (date_range start end)
            \<and> pred_mean (rows ! i) = Fin m
            \<and> pred_lo (rows ! i) = Fin 0
            \<and> \<not> fle (pred_lo (rows ! i)) (pred_mean (rows ! i))"
proof -
  have "m - 1.96 * s \<le> 0" using assms(7,9) by simp
  then have lo: "fmaximum (fsub (Fin m) (fmul (Fin 1.96) (Fin s))) (Fin 0) = Fin 0"
    by (simp add: fmaximum_def fsub_def)
  show ?thesis
    using assms(5-9) lo by (simp add: predict_daily_answered [of scaler start "end" x gp mean_ds std_ds, OF assms(1-4)])
qed

theorem predict_daily_negative_mean_witness:
  "map_sum id (map (\<lambda>r. (contract_date r, pred_mean r, pred_lo r)))
     (predict_daily (example_regressor (- 1) 1) example_scaler 20270 20270 None)
     = Inr [(20270, Fin (- 1), Fin 0)]
   \<and> \<not> fle (Fin 0) (Fin (- 1))"
  using predict_daily_negative_mean
    [of example_scaler 20270 20270
        "map (map (\<lambda>v. (v - 1 / 2) * 2)) (map snd (build_features (date_range 20270 20270)))"
        "example_regressor (- 1) 1" "[Fin (- 1)]" "[Fin 1]" 0 "- 1" 1]
  by (simp add: predict_daily_def example_scaler_def example_regressor_def date_range_def
        build_features_def prediction_def np_binop_def fmaximum_def fsub_def)

text \<open>
  C5, as the code has it. \<open>predict_daily\<close> does not compare the two dates and raises no
  error of its own for a reversed range. When end precedes start the date range is
  empty, the feature matrix has no rows, and the scaler's \<open>transform\<close> rejects it: the
  error of the scaler is the error of \<open>predict_daily\<close>, for every regressor and every
  multiplier.
\<close>

theorem predict_daily_reversed_range:
  assumes "end < start" and "scaler [] = Inl e"
  shows "date_range start end = [] \<and> predict_daily gp scaler start end month_mult = Inl e"
  using assms by (simp add: predict_daily_def date_range_def build_features_def)

theorem predict_daily_reversed_range_witness:
  "(20270::int) < 20271 \<and> example_scaler [] = Inl ValueError
   \<and> date_range 20271 20270 = []
   \<and> predict_daily (example_regressor 1200 100) example_scaler 20271 20270
        (Some [(7, Some (Fin 2))]) = Inl ValueError"
  using predict_daily_reversed_range
    [of 20270 20271 example_scaler ValueError "example_regressor 1200 100" "Some [(7, Some (Fin 2))]"]
  by (simp add: example_scaler_def)

text \<open>
  C5 as stated fails in the name of the error: for the range from 2025-07-02 back to
  2025-07-01 the call fails with the \<open>ValueError\<close> of the scaler's input validation.
\<close>

theorem predict_daily_reversed_range_counterexample:
  "predict_daily (example_regressor 1200 100) example_scaler 20271 20270 None = Inl ValueError"
  by (simp add: predict_daily_def date_range_def build_features_def example_scaler_def)

section \<open>The monthly multiplier in fit and prediction\<close>

lemma clean_multiplier_None [simp]: "clean_multiplier None = Fin 1"
  by (simp add: clean_multiplier_def)

lemma map_of_absent: "k \<notin> fst ` set t \<Longrightarrow> map_of t k = None"
  by (simp add: map_of_eq_None_iff)


lemma length_build_features [simp]: "length (build_features ds) = length ds"
  by (simp add: build_features_def)

lemma map_fst_build_features [simp]: "map fst (build_features ds) = ds"
  by (simp add: build_features_def comp_def)

lemma length_weekly_targets [simp]: "length (weekly_targets df) = length (weekly_table df)"
  by (simp add: weekly_targets_def)

lemma map2_conv_nth:
  "length xs = length ys \<Longrightarrow> map2 f xs ys = map (\<lambda>i. f (xs ! i) (ys ! i)) [0..<length xs]"
  by (rule nth_equalityI) simp_all

lemma deseasonalize_distinct:
  assumes "distinct (map fst t)" and "length y = length feats"
  shows "deseasonalize feats y (Some t)
           = Inr (map (\<lambda>i. fdiv (y ! i)
                    (clean_multiplier (flatten_null (map_of t (month_of (fst (feats ! i)))))))
                  [0..<length y])"
proof -
  let ?mm = "map (\<lambda>d. clean_multiplier (flatten_null (map_of t (month_of d)))) (map fst feats)"
  have len: "length y = length ?mm" using assms(2) by simp
  have "map2 fdiv y ?mm = map (\<lambda>i. fdiv (y ! i) (?mm ! i)) [0..<length y]"
    using len by (rule map2_conv_nth)
  also have "\<dots> = map (\<lambda>i. fdiv (y ! i)
                    (clean_multiplier (flatten_null (map_of t (month_of (fst (feats ! i)))))))
                  [0..<length y]"
    using assms(2) by simp
  finally show ?thesis
    using assms len by (simp add: deseasonalize_def month_multiplier_array_distinct np_binop_def)
qed

lemma predict_daily_partial_table:
  assumes d: "distinct (map fst t)"
    and r: "predict_daily gp scaler start end None = Inr rows"
  shows "\<exists>rows'. predict_daily gp scaler start end (Some t) = Inr rows'
            \<and> length rows' = length rows
            \<and> (\<forall>i<length rows. month_of (contract_date (rows ! i)) \<notin> fst ` set t
                  \<longrightarrow> rows' ! i = rows ! i)"
proof -
  let ?dates = "date_range start end"
  let ?n = "length ?dates"
  let ?c = "\<lambda>d. clean_multiplier (flatten_null (map_of t (month_of d)))"
  let ?mm = "map ?c ?dates"
  from r obtain x mean_ds std_ds where
    sc: "scaler (map snd (build_features ?dates)) = Inr x"
    and g: "gp x = Inr (Some (mean_ds, std_ds))"
    and p: "prediction mean_ds std_ds ?dates = Inr rows"
    by (auto simp: predict_daily_def Let_def split: sum.splits option.splits prod.splits)
  note P = prediction_rows [OF p]
  have mm: "month_multiplier_array ?dates t = ?mm"
    using d by (rule month_multiplier_array_distinct)
  let ?mean = "map (\<lambda>i. fmul (bcast mean_ds i) (?mm ! i)) [0..<?n]"
  let ?std = "map (\<lambda>i. fmul (bcast std_ds i) (?mm ! i)) [0..<?n]"
  have bm: "np_binop fmul mean_ds ?mm = Inr ?mean"
    using P by (intro np_binop_onto) auto
  have bs: "np_binop fmul std_ds ?mm = Inr ?std"
    using P by (intro np_binop_onto) auto
  define rows' where "rows' = map (\<lambda>i. \<lparr>contract_date = ?dates ! i, pred_mean = ?mean ! i,
                    pred_lo = fmaximum (fsub (?mean ! i) (fmul (Fin 1.96) (?std ! i))) (Fin 0),
                    pred_hi = fadd (?mean ! i) (fmul (Fin 1.96) (?std ! i))\<rparr>) [0..<?n]"
  have p': "prediction ?mean ?std ?dates = Inr rows'"
    unfolding rows'_def by (rule prediction_same_length) simp_all
  have res: "predict_daily gp scaler start end (Some t) = Inr rows'"
    using sc g mm bm bs p' by (simp add: predict_daily_def Let_def)
  have len: "length rows' = length rows"
    using P by (simp add: rows'_def)
  have same: "rows' ! i = rows ! i"
    if i: "i < length rows" and a: "month_of (contract_date (rows ! i)) \<notin> fst ` set t" for i
  proof -
    have i': "i < ?n" using P i by simp
    have "contract_date (rows ! i) = ?dates ! i" using P i' by simp
    with a have "?c (?dates ! i) = Fin 1" by (simp add: map_of_absent)
    then have one: "?mm ! i = Fin 1" using i' by simp
    have "bcast mean_ds i = mean_ds ! i"
      using P i' by (auto simp: bcast_def hd_length_one)
    then show ?thesis using P i' one by (simp add: rows'_def)
  qed
  from res len same show ?thesis by blast
qed

text \<open>
  C9. For \<open>start \<le> end\<close>, whatever \<open>predict_daily\<close> returns has one row for each day
  from start to end, in ascending order, so \<open>end - start + 1\<close> rows; the weekly table of
  the fit plays no part. It does return, without a multiplier and with any multiplier
  table of at most one row for a month, when the scaler accepts the feature matrix
  and the regressor answers with a mean and a standard deviation for each row.
\<close>

theorem predict_daily_one_row_per_day:
  assumes "start \<le> end"
  shows "(\<forall>rows. predict_daily gp scaler start end month_mult = Inr rows \<longrightarrow>
            length rows = nat (end - start + 1)
            \<and> map contract_date rows = [start..end]
            \<and> sorted_wrt (<) (map contract_date rows))
       \<and> (scaler (map snd (build_features (date_range start end))) = Inr x
            \<and> gp x = Inr (Some (mean_ds, std_ds))
            \<and> length mean_ds = nat (end - start + 1) \<and> length std_ds = nat (end - start + 1)
          \<longrightarrow> (\<exists>rows. predict_daily gp scaler start end None = Inr rows)
              \<and> (\<forall>t. distinct (map fst t)
                    \<longrightarrow> (\<exists>rows. predict_daily gp scaler start end (Some t) = Inr rows)))"
proof (intro conjI allI impI)
  fix rows
  assume r: "predict_daily gp scaler start end month_mult = Inr rows"
  from predict_daily_Inr [OF r] obtain mean std where
    "prediction mean std (date_range start end) = Inr rows" by blast
  from prediction_dates [OF this] show d: "map contract_date rows = [start..end]"
    by (simp add: date_range_def)
  have "length (map contract_date rows) = nat (end - start + 1)"
    by (simp only: d length_upto)
  then show "length rows = nat (end - start + 1)" by simp
  show "sorted_wrt (<) (map contract_date rows)"
    by (simp add: d strict_sorted_iff)
next
  assume a: "scaler (map snd (build_features (date_range start end))) = Inr x
            \<and> gp x = Inr (Some (mean_ds, std_ds))
            \<and> length mean_ds = nat (end - start + 1) \<and> length std_ds = nat (end - start + 1)"
  then have "length mean_ds = length (date_range start end)"
    "length std_ds = length (date_range start end)"
    using assms by (simp_all add: length_date_range)
  from prediction_same_length [OF this] a
  have none: "\<exists>rows. predict_daily gp scaler start end None = Inr rows"
    by (simp add: predict_daily_def Let_def)
  then show "\<exists>rows. predict_daily gp scaler start end None = Inr rows" .
  fix t :: "(int \<times> float64 option) list"
  assume "distinct (map fst t)"
  with none predict_daily_partial_table [of t gp scaler start "end"]
  show "\<exists>rows. predict_daily gp scaler start end (Some t) = Inr rows"
    by blast
qed

theorem predict_daily_one_row_per_day_witness:
  "(20270::int) \<le> 20272
   \<and> predict_daily (\<lambda>x. Inr (Some (map (\<lambda>v. Fin 1200) x, map (\<lambda>v. Fin 100) x))) Inr 20270 20272 None
     = Inr [\<lparr>contract_date = 20270, pred_mean = Fin 1200, pred_lo = Fin 1004, pred_hi = Fin 1396\<rparr>,
            \<lparr>contract_date = 20271, pred_mean = Fin 1200, pred_lo = Fin 1004, pred_hi = Fin 1396\<rparr>,
            \<lparr>contract_date = 20272, pred_mean = Fin 1200, pred_lo = Fin 1004, pred_hi = Fin 1396\<rparr>]
   \<and> nat (20272 - 20270 + 1) = 3"
  using predict_daily_one_row_per_day
    [of 20270 20272 "\<lambda>x. Inr (Some (map (\<lambda>v. Fin 1200) x, map (\<lambda>v. Fin 100) x))" Inr None]
  by (simp add: predict_daily_def date_range_def build_features_def prediction_def np_binop_def
        fmaximum_def fsub_def)


lemma month_of_19723: "month_of 19723 = 1"
  by code_simp

lemma week_start_19723: "week_start 19723 = 19723"
  by (simp add: week_start_def)

lemma weekly_table_single: "weekly_table [(19723, Some (Fin 5))] = [(19723, Some (Fin 5))]"
  by (simp add: weekly_table_def aggregate_weekly_def week_start_19723 col_mean_def non_null_def
        fmean_def fsum_def)

lemma clean_multiplier_Some: "clean_multiplier (Some v) = (if isfinite v then v else Fin 1)"
  by (simp add: clean_multiplier_def)

text \<open>
  C2, as the code has it. What is set to 1.0 is the multiplier that is not finite (or is
  missing or null), before the division; the ratio itself is not inspected. For a
  multiplier table with at most one row for a month the division succeeds, every
  weekly target is divided by a finite multiplier \<open>m\<close>: the table's own value when that
  is finite, and 1.0 otherwise, in which case the target is unchanged. Nothing is said
  of the ratio: it need not be finite.
\<close>

theorem deseasonalize_cleans_multipliers:
  assumes "distinct (map fst t)"
  shows "\<exists>ys. deseasonalize (build_features (map fst (weekly_table df))) (weekly_targets df) (Some t) = Inr ys
            \<and> length ys = length (weekly_table df)
            \<and> (\<forall>i<length (weekly_table df). \<exists>m.
                  isfinite m \<and> ys ! i = fdiv (weekly_targets df ! i) m
                  \<and> (\<forall>v. map_of t (month_of (fst (weekly_table df ! i))) = Some (Some v) \<and> isfinite v
                        \<longrightarrow> m = v)
                  \<and> ((\<forall>v. map_of t (month_of (fst (weekly_table df ! i))) = Some (Some v)
                          \<longrightarrow> \<not> isfinite v)
                        \<longrightarrow> m = Fin 1 \<and> ys ! i = weekly_targets df ! i))"
proof -
  let ?feats = "build_features (map fst (weekly_table df))"
  let ?y = "weekly_targets df"
  let ?m = "\<lambda>i. clean_multiplier (flatten_null (map_of t (month_of (fst (weekly_table df ! i)))))"
  define ys where "ys = map (\<lambda>i. fdiv (?y ! i) (?m i)) [0..<length ?y]"
  have len: "length ?y = length ?feats" by simp
  have "deseasonalize ?feats ?y (Some t)
          = Inr (map (\<lambda>i. fdiv (?y ! i)
                    (clean_multiplier (flatten_null (map_of t (month_of (fst (?feats ! i)))))))
                  [0..<length ?y])"
    using assms len by (rule deseasonalize_distinct)
  also have "map (\<lambda>i. fdiv (?y ! i)
                    (clean_multiplier (flatten_null (map_of t (month_of (fst (?feats ! i)))))))
                  [0..<length ?y] = ys"
    by (simp add: ys_def build_features_def)
  finally have res: "deseasonalize ?feats ?y (Some t) = Inr ys" .
  have ylen: "length ys = length (weekly_table df)" by (simp add: ys_def)
  have row: "\<exists>m. isfinite m \<and> ys ! i = fdiv (?y ! i) m
                  \<and> (\<forall>v. map_of t (month_of (fst (weekly_table df ! i))) = Some (Some v) \<and> isfinite v
                        \<longrightarrow> m = v)
                  \<and> ((\<forall>v. map_of t (month_of (fst (weekly_table df ! i))) = Some (Some v)
                          \<longrightarrow> \<not> isfinite v)
                        \<longrightarrow> m = Fin 1 \<and> ys ! i = ?y ! i)"
    if i: "i < length (weekly_table df)" for i
  proof -
    have yi: "ys ! i = fdiv (?y ! i) (?m i)" using i by (simp add: ys_def)
    have fin: "isfinite (?m i)" by (rule isfinite_clean_multiplier)
    have a: "?m i = v" if "map_of t (month_of (fst (weekly_table df ! i))) = Some (Some v)" "isfinite v" for v
      using that by (simp add: clean_multiplier_Some)
    have b: "?m i = Fin 1"
      if "\<forall>v. map_of t (month_of (fst (weekly_table df ! i))) = Some (Some v) \<longrightarrow> \<not> isfinite v"
    proof (cases "flatten_null (map_of t (month_of (fst (weekly_table df ! i))))")
      case None
      then show ?thesis by simp
    next
      case (Some v)
      then have "map_of t (month_of (fst (weekly_table df ! i))) = Some (Some v)"
        by (cases "map_of t (month_of (fst (weekly_table df ! i)))") auto
      with that have "\<not> isfinite v" by blast
      with Some show ?thesis by (simp add: clean_multiplier_Some)
    qed
    show ?thesis
      using yi fin a b by (intro exI [of _ "?m i"]) auto
  qed
  from res ylen row show ?thesis by blast
qed

theorem deseasonalize_cleans_multipliers_witness:
  "distinct (map fst [(1::int, Some PInf), (2, Some (Fin 2))])
   \<and> deseasonalize (build_features (map fst (weekly_table [(19723, Some (Fin 5))])))
        (weekly_targets [(19723, Some (Fin 5))]) (Some [(1, Some PInf), (2, Some (Fin 2))])
     = Inr [Fin 5]"
  using deseasonalize_cleans_multipliers [of "[(1::int, Some PInf), (2, Some (Fin 2))]" "[(19723, Some (Fin 5))]"]
  by (simp add: weekly_table_single weekly_targets_def deseasonalize_def month_multiplier_array_def
        join_left_def month_of_19723 clean_multiplier_def np_binop_def)

text \<open>
  C2 as stated fails: a multiplier of 0.0 for January is finite, so it is kept, and
  the target 5 of a January week becomes \<open>5 / 0 = inf\<close>.
\<close>

theorem deseasonalize_zero_multiplier_counterexample:
  "deseasonalize (build_features (map fst (weekly_table [(19723, Some (Fin 5))])))
        (weekly_targets [(19723, Some (Fin 5))]) (Some [(1, Some (Fin 0))])
     = Inr [PInf]
   \<and> \<not> isfinite PInf"
  by (simp add: weekly_table_single weekly_targets_def deseasonalize_def month_multiplier_array_def
        join_left_def month_of_19723 clean_multiplier_def np_binop_def)





section \<open>Observed values and predictions\<close>

lemma fill_missing_with_gp_distinct:
  assumes "distinct (map fst df_obs)"
  shows "fill_missing_with_gp df_obs df_pred
           = map (\<lambda>p. pred_row.extend p
                   \<lparr>registration_time = flatten_null (map_of df_obs (contract_date p)),
                    registration_time_filled =
                      (case flatten_null (map_of df_obs (contract_date p)) of
                         Some x \<Rightarrow> x | None \<Rightarrow> pred_mean p),
                    filled = (flatten_null (map_of df_obs (contract_date p)) = None)\<rparr>) df_pred"
  using assms by (simp add: fill_missing_with_gp_def join_left_distinct Let_def comp_def)

lemma flatten_map_of_Some:
  "distinct (map fst t) \<Longrightarrow> (flatten_null (map_of t k) = Some v) = ((k, Some v) \<in> set t)"
proof -
  assume d: "distinct (map fst t)"
  have "(flatten_null (map_of t k) = Some v) = (map_of t k = Some (Some v))"
    by (cases "map_of t k") auto
  then show ?thesis by (simp add: map_of_eq_Some_iff [OF d])
qed

lemma selectors_extend [simp]:
  "contract_date (pred_row.extend p e) = contract_date p"
  "pred_mean (pred_row.extend p e) = pred_mean p"
  "pred_lo (pred_row.extend p e) = pred_lo p"
  "pred_hi (pred_row.extend p e) = pred_hi p"
  by (simp_all add: pred_row.defs)

lemma filled_extend [simp]:
  "filled (pred_row.extend p \<lparr>registration_time = a, registration_time_filled = b, filled = c\<rparr>) = c"
  "registration_time_filled
     (pred_row.extend p \<lparr>registration_time = a, registration_time_filled = b, filled = c\<rparr>) = b"
  "registration_time
     (pred_row.extend p \<lparr>registration_time = a, registration_time_filled = b, filled = c\<rparr>) = a"
  by (cases p; simp add: pred_row.defs filled_row.defs)+

text \<open>
  C7. For an observed table with one row for a date, \<open>fill_missing_with_gp\<close> gives one
  row for each row of the prediction table, in order, with the date, the mean and
  the bounds \<open>pred_lo\<close> and \<open>pred_hi\<close> of that row unchanged. Where the observed table
  has a value for the date the row is not filled and carries that value; where it
  has none (no row, or a null) the row is filled and carries the predicted mean.
\<close>

theorem fill_missing_keeps_observed:
  assumes "distinct (map fst df_obs)"
  shows "length (fill_missing_with_gp df_obs df_pred) = length df_pred
       \<and> (\<forall>i<length df_pred.
            contract_date (fill_missing_with_gp df_obs df_pred ! i) = contract_date (df_pred ! i)
            \<and> pred_mean (fill_missing_with_gp df_obs df_pred ! i) = pred_mean (df_pred ! i)
            \<and> pred_lo (fill_missing_with_gp df_obs df_pred ! i) = pred_lo (df_pred ! i)
            \<and> pred_hi (fill_missing_with_gp df_obs df_pred ! i) = pred_hi (df_pred ! i)
            \<and> (\<forall>v. (contract_date (df_pred ! i), Some v) \<in> set df_obs \<longrightarrow>
                  \<not> filled (fill_missing_with_gp df_obs df_pred ! i)
                  \<and> registration_time_filled (fill_missing_with_gp df_obs df_pred ! i) = v)
            \<and> ((\<forall>v. (contract_date (df_pred ! i), Some v) \<notin> set df_obs) \<longrightarrow>
                  filled (fill_missing_with_gp df_obs df_pred ! i)
                  \<and> registration_time_filled (fill_missing_with_gp df_obs df_pred ! i)
                      = pred_mean (df_pred ! i)))"
proof -
  let ?out = "fill_missing_with_gp df_obs df_pred"
  let ?reg = "\<lambda>i. flatten_null (map_of df_obs (contract_date (df_pred ! i)))"
  note eq = fill_missing_with_gp_distinct [OF assms, of df_pred]
  have len: "length ?out = length df_pred" by (simp add: eq)
  have row: "contract_date (?out ! i) = contract_date (df_pred ! i)
            \<and> pred_mean (?out ! i) = pred_mean (df_pred ! i)
            \<and> pred_lo (?out ! i) = pred_lo (df_pred ! i)
            \<and> pred_hi (?out ! i) = pred_hi (df_pred ! i)
            \<and> filled (?out ! i) = (?reg i = None)
            \<and> registration_time_filled (?out ! i)
                = (case ?reg i of Some x \<Rightarrow> x | None \<Rightarrow> pred_mean (df_pred ! i))"
    if "i < length df_pred" for i
    using that by (simp add: eq)
  have obs: "\<not> filled (?out ! i) \<and> registration_time_filled (?out ! i) = v"
    if "i < length df_pred" "(contract_date (df_pred ! i), Some v) \<in> set df_obs" for i v
  proof -
    from that(2) have "?reg i = Some v" by (simp add: flatten_map_of_Some [OF assms])
    with row [OF that(1)] show ?thesis by simp
  qed
  have mis: "filled (?out ! i) \<and> registration_time_filled (?out ! i) = pred_mean (df_pred ! i)"
    if "i < length df_pred" "\<forall>v. (contract_date (df_pred ! i), Some v) \<notin> set df_obs" for i
  proof -
    have "?reg i = None"
    proof (cases "?reg i")
      case (Some v)
      then have "(contract_date (df_pred ! i), Some v) \<in> set df_obs"
        by (simp add: flatten_map_of_Some [OF assms])
      with that(2) show ?thesis by blast
    qed simp
    with row [OF that(1)] show ?thesis by simp
  qed
  show ?thesis using len row obs mis by blast
qed

theorem fill_missing_keeps_observed_witness:
  "distinct (map fst [(19723::int, Some (Fin 1100)), (19730, None)])
   \<and> map (\<lambda>r. (contract_date r, registration_time_filled r, filled r, pred_lo r, pred_hi r))
       (fill_missing_with_gp [(19723, Some (Fin 1100)), (19730, None)]
         [\<lparr>contract_date = 19723, pred_mean = Fin 1200, pred_lo = Fin 1004, pred_hi = Fin 1396\<rparr>,
          \<lparr>contract_date = 19724, pred_mean = Fin 1210, pred_lo = Fin 1014, pred_hi = Fin 1406\<rparr>,
          \<lparr>contract_date = 19730, pred_mean = Fin 1220, pred_lo = Fin 1024, pred_hi = Fin 1416\<rparr>])
     = [(19723, Fin 1100, False, Fin 1004, Fin 1396),
        (19724, Fin 1210, True, Fin 1014, Fin 1406),
        (19730, Fin 1220, True, Fin 1024, Fin 1416)]"
  using fill_missing_keeps_observed [of "[(19723::int, Some (Fin 1100)), (19730, None)]"
    "[\<lparr>contract_date = 19723, pred_mean = Fin 1200, pred_lo = Fin 1004, pred_hi = Fin 1396\<rparr>,
          \<lparr>contract_date = 19724, pred_mean = Fin 1210, pred_lo = Fin 1014, pred_hi = Fin 1406\<rparr>,
          \<lparr>contract_date = 19730, pred_mean = Fin 1220, pred_lo = Fin 1024, pred_hi = Fin 1416\<rparr>]"]
  by (simp add: fill_missing_with_gp_def join_left_def)

section \<open>The probability score on a degenerate interval\<close>

text \<open>
  C4 on the code. For a table of one row with \<open>pred_lo = pred_hi = 5\<close> and the target 5,
  \<open>(m - lo) / denom\<close> is 0/0, \<open>np.clip\<close> keeps the NaN, and \<open>ci_pct\<close> is NaN for either
  direction and whatever \<open>erf\<close> computes: \<open>np.errstate\<close> only silences the warning.
  The two lemmas after it show that a table with no row or with more than one row
  does not get as far: unpacking the array into \<open>np.vectorize\<close> raises.
\<close>

theorem ci_pct_degenerate_interval_is_nan:
  "map_sum id (map ci_pct)
     (add_prob_good_enough erf
        [\<lparr>contract_date = 20270, pred_mean = Fin 5, pred_lo = Fin 5, pred_hi = Fin 5\<rparr>]
        (\<lambda>d. Fin 5) direction)
   = Inr [NaN]"
  by (simp add: add_prob_good_enough_def Let_def fsub_def fmaximum_def fclip_def fminimum_def
        pred_row.defs scored_row.defs)

lemma add_prob_good_enough_two_rows:
  "add_prob_good_enough erf (p # q # rest) my_time_fn direction = Inl TypeError"
  by (simp add: add_prob_good_enough_def Let_def)

lemma add_prob_good_enough_no_rows:
  "add_prob_good_enough erf [] my_time_fn direction = Inl TypeError"
  by (simp add: add_prob_good_enough_def Let_def)

section \<open>The monthly multiplier profile\<close>

lemma distinct_map_insort_key:
  "distinct (map f (insort_key f x xs)) = (f x \<notin> f ` set xs \<and> distinct (map f xs))"
  by (induction xs) (auto simp: set_insort_key)

lemma distinct_map_sort_key: "distinct (map f (sort_key f xs)) = distinct (map f xs)"
  by (induction xs) (auto simp: distinct_map_insort_key)

lemma distinct_unique_months: "distinct (map fst (unique_months keep tm))"
  by (simp add: unique_months_def distinct_map_sort_key comp_def)

lemma set_unique_months: "fst ` set (unique_months keep tm) = fst ` set tm"
  by (force simp: unique_months_def)

lemma scaffold_map_of:
  "scaffold keep tm = map (\<lambda>m. flatten_null (map_of (unique_months keep tm) m)) [1..12]"
  by (simp add: scaffold_def join_left_distinct [OF distinct_unique_months] comp_def)

lemma length_scaffold [simp]: "length (scaffold keep tm) = 12"
  by (simp add: scaffold_map_of)

lemma scaffold_absent:
  assumes "m \<in> {1..12}" and "m \<notin> fst ` set tm"
  shows "scaffold keep tm ! nat (m - 1) = None"
proof -
  have "map_of (unique_months keep tm) m = None"
    using assms(2) by (simp add: map_of_eq_None_iff set_unique_months)
  moreover have "[1..12] ! nat (m - 1) = m" "nat (m - 1) < length [1..12::int]"
    using assms(1) by auto
  ultimately show ?thesis
    by (simp add: scaffold_map_of del: length_upto)
qed

lemma month_values_Inr:
  "month_values keep tm = Inr vals \<Longrightarrow>
     non_null (scaffold keep tm) \<noteq> []
     \<and> vals = map (\<lambda>v. fill_null v (fmean (non_null (scaffold keep tm)))) (scaffold keep tm)"
  by (auto simp: month_values_def col_mean_def Let_def split: if_splits)

lemma month_values_Inl:
  "month_values keep tm = Inl e \<Longrightarrow> non_null (scaffold keep tm) = [] \<and> e = TypeError"
  by (auto simp: month_values_def col_mean_def Let_def split: if_splits)

lemma length_month_values: "month_values keep tm = Inr vals \<Longrightarrow> length vals = 12"
  by (auto dest: month_values_Inr)

lemma length_smooth [simp]: "length (smooth r vals) = 12"
  by (simp add: smooth_def)

lemma trends_rows:
  assumes "trends_monthly_multiplier keep tm strength r = Inr rows"
  shows "map fst rows = [1..12] \<and> length rows = 12"
proof -
  from assms obtain vals where v: "month_values keep tm = Inr vals"
    by (auto simp: trends_monthly_multiplier_def split: sum.splits)
  note l = length_month_values [OF v]
  from assms v l show ?thesis
    by (auto simp: trends_monthly_multiplier_def Let_def)
qed

lemma trends_returns_iff:
  "(\<exists>rows. trends_monthly_multiplier keep tm strength r = Inr rows)
     = (non_null (scaffold keep tm) \<noteq> [])"
  by (auto simp: trends_monthly_multiplier_def month_values_def col_mean_def Let_def
        split: sum.splits if_splits)

lemma upto_1_12: "[1..12::int] = [1, 2, 3, 4, 5, 6, 7, 8, 9, 10, 11, 12]"
  by code_simp

lemma scaffold_two_months:
  "scaffold hd [(1, Some (Fin 1)), (2, Some (Fin 3))]
     = [Some (Fin 1), Some (Fin 3), None, None, None, None, None, None, None, None, None, None]"
  by (simp add: scaffold_map_of upto_1_12 unique_months_def)

text \<open>
  C3 on the code. The power \<open>vals ** strength\<close> is applied after the division by the
  mean, so a strength other than 1 moves the mean away from the 1.0 that the docstring
  names. For the values 1 and 3 for January and February and strength 2 the filled
  values are 1, 3 and ten times 2, the normalized values 1/2, 3/2 and ten times 1, and
  the multipliers 1/4, 9/4 and ten times 1: 12 rows with mean 25/24, further from 1
  than 1e-6. Every number of this run is exact in binary floating point.
\<close>

theorem monthly_multiplier_strength_two:
  "trends_monthly_multiplier hd [(1, Some (Fin 1)), (2, Some (Fin 3))] 2 0
     = Inr [(1, Fin (1 / 4)), (2, Fin (9 / 4)), (3, Fin 1), (4, Fin 1), (5, Fin 1), (6, Fin 1),
            (7, Fin 1), (8, Fin 1), (9, Fin 1), (10, Fin 1), (11, Fin 1), (12, Fin 1)]
   \<and> fmean (map snd [(1::int, Fin (1 / 4)), (2, Fin (9 / 4)), (3, Fin 1), (4, Fin 1), (5, Fin 1),
            (6, Fin 1), (7, Fin 1), (8, Fin 1), (9, Fin 1), (10, Fin 1), (11, Fin 1), (12, Fin 1)])
     = Fin (25 / 24)
   \<and> \<not> \<bar>25 / 24 - 1\<bar> < (1 / 10 ^ 6 :: real)"
  by (simp add: trends_monthly_multiplier_def month_values_def scaffold_two_months col_mean_def
        non_null_def fmean_def fsum_def fpow_def upto_1_12 power2_eq_square)

lemma scaffold_three_months:
  "scaffold hd [(1, Some (Fin 100)), (6, Some (Fin 50)), (12, Some (Fin 75))]
     = [Some (Fin 100), None, None, None, None, Some (Fin 50), None, None, None, None, None,
        Some (Fin 75)]"
  by (simp add: scaffold_map_of upto_1_12 unique_months_def)

lemma month_values_absent:
  assumes "month_values keep tm = Inr vals" and "m \<in> {1..12}" and "m \<notin> fst ` set tm"
  shows "vals ! nat (m - 1) = fmean (non_null (scaffold keep tm))"
proof -
  have "nat (m - 1) < 12" using assms(2) by (auto simp: nat_less_iff)
  then have "nat (m - 1) < length (scaffold keep tm)" by simp
  then show ?thesis
    using month_values_Inr [OF assms(1)] scaffold_absent [OF assms(2,3), of keep] by simp
qed

text \<open>
  C8. A month of 1 to 12 that the input does not have gets, before smoothing and
  normalization, the mean of the values that the months 1 to 12 do have. For the
  months 1, 6 and 12 with the values 100, 50 and 75 that mean is 75, the filled array is
  100, 75, 75, 75, 75, 50, 75, ..., 75, and the result has 12 rows with multipliers of
  mean 1.
\<close>

theorem missing_months_get_the_mean:
  "(\<forall>m\<in>{1..12}. \<forall>vals. month_values keep tm = Inr vals \<and> m \<notin> fst ` set tm
        \<longrightarrow> vals ! nat (m - 1) = fmean (non_null (scaffold keep tm)))
   \<and> non_null (scaffold hd [(1, Some (Fin 100)), (6, Some (Fin 50)), (12, Some (Fin 75))])
       = [Fin 100, Fin 50, Fin 75]
   \<and> fmean [Fin 100, Fin 50, Fin 75] = Fin 75
   \<and> month_values hd [(1, Some (Fin 100)), (6, Some (Fin 50)), (12, Some (Fin 75))]
       = Inr [Fin 100, Fin 75, Fin 75, Fin 75, Fin 75, Fin 50,
              Fin 75, Fin 75, Fin 75, Fin 75, Fin 75, Fin 75]
   \<and> trends_monthly_multiplier hd [(1, Some (Fin 100)), (6, Some (Fin 50)), (12, Some (Fin 75))] 1 0
       = Inr [(1, Fin (4 / 3)), (2, Fin 1), (3, Fin 1), (4, Fin 1), (5, Fin 1), (6, Fin (2 / 3)),
              (7, Fin 1), (8, Fin 1), (9, Fin 1), (10, Fin 1), (11, Fin 1), (12, Fin 1)]
   \<and> length [(1::int, Fin (4 / 3)), (2, Fin 1), (3, Fin 1), (4, Fin 1), (5, Fin 1), (6, Fin (2 / 3)),
              (7, Fin 1), (8, Fin 1), (9, Fin 1), (10, Fin 1), (11, Fin 1), (12, Fin 1)] = 12
   \<and> fmean (map snd [(1::int, Fin (4 / 3)), (2, Fin 1), (3, Fin 1), (4, Fin 1), (5, Fin 1),
              (6, Fin (2 / 3)), (7, Fin 1), (8, Fin 1), (9, Fin 1), (10, Fin 1), (11, Fin 1),
              (12, Fin 1)]) = Fin 1"
proof (intro conjI ballI allI impI)
  fix m vals
  assume "m \<in> {1..12::int}" and "month_values keep tm = Inr vals \<and> m \<notin> fst ` set tm"
  then show "vals ! nat (m - 1) = fmean (non_null (scaffold keep tm))"
    using month_values_absent [of keep tm vals m] by blast
qed (simp_all add: trends_monthly_multiplier_def month_values_def scaffold_three_months
       col_mean_def non_null_def fmean_def fsum_def upto_1_12)

theorem missing_months_get_the_mean_witness:
  "month_values hd [(1, Some (Fin 100)), (6, Some (Fin 50)), (12, Some (Fin 75))]
       = Inr [Fin 100, Fin 75, Fin 75, Fin 75, Fin 75, Fin 50,
              Fin 75, Fin 75, Fin 75, Fin 75, Fin 75, Fin 75]
   \<and> (2::int) \<notin> fst ` set [(1::int, Some (Fin 100)), (6, Some (Fin 50)), (12, Some (Fin 75))]
   \<and> [Fin 100, Fin 75, Fin 75, Fin 75, Fin 75, Fin 50,
        Fin 75, Fin 75, Fin 75, Fin 75, Fin 75, Fin 75] ! nat (2 - 1)
       = fmean (non_null (scaffold hd [(1, Some (Fin 100)), (6, Some (Fin 50)), (12, Some (Fin 75))]))"
  using missing_months_get_the_mean [of hd "[(1, Some (Fin 100)), (6, Some (Fin 50)), (12, Some (Fin 75))]"]
  by simp

section \<open>Segments that are too small\<close>

lemma extend_all_append:
  "extend_all fp (pre @ post) =
     (case extend_all fp pre of
        Inl e \<Rightarrow> Inl e
      | Inr rows \<Rightarrow>
          (case extend_all fp post of Inl e \<Rightarrow> Inl e | Inr rest \<Rightarrow> Inr (rows @ rest)))"
  by (induction pre) (auto split: sum.splits)

text \<open>
  C6. A segment with fewer than 20 rows left after \<open>drop_nulls\<close> gives no prediction
  rows and no error, and the run over all segments is the run without that segment:
  whatever comes before and after it is fitted and collected as if it were not there.
\<close>

theorem short_segment_is_skipped:
  assumes "length (drop_nulls d) < 20"
  shows "fit_and_predict fit_transform gp_fit round1 today d horizon_days c t = Inr []
       \<and> extend_all (\<lambda>d c t. fit_and_predict fit_transform gp_fit round1 today d horizon_days c t)
            (pre @ (d, c, t) # post)
         = extend_all (\<lambda>d c t. fit_and_predict fit_transform gp_fit round1 today d horizon_days c t)
            (pre @ post)"
proof -
  have skip: "fit_and_predict fit_transform gp_fit round1 today d horizon_days c t = Inr []"
    using assms by (simp add: fit_and_predict_def MIN_ROWS_FOR_GP_def)
  show ?thesis
    by (simp add: skip extend_all_append split: sum.splits)
qed

theorem short_segment_is_skipped_witness:
  "length (drop_nulls [\<lparr>rr_contract_date = Some 19723, rr_registration_time = Some (Fin 1200),
                         rr_city = ''Delft'', rr_type_of_room = ''Studio''\<rparr>,
                       \<lparr>rr_contract_date = Some 19730, rr_registration_time = None,
                         rr_city = ''Delft'', rr_type_of_room = ''Studio''\<rparr>]) < 20
   \<and> fit_and_predict (\<lambda>x. Inl (LibraryError ''fit'')) (\<lambda>x y. Inl (LibraryError ''fit'')) id 20000
        [\<lparr>rr_contract_date = Some 19723, rr_registration_time = Some (Fin 1200),
          rr_city = ''Delft'', rr_type_of_room = ''Studio''\<rparr>,
         \<lparr>rr_contract_date = Some 19730, rr_registration_time = None,
          rr_city = ''Delft'', rr_type_of_room = ''Studio''\<rparr>]
        730 (Some ''Delft'') None = Inr []"
  using short_segment_is_skipped
    [of "[\<lparr>rr_contract_date = Some 19723, rr_registration_time = Some (Fin 1200),
           rr_city = ''Delft'', rr_type_of_room = ''Studio''\<rparr>,
          \<lparr>rr_contract_date = Some 19730, rr_registration_time = None,
           rr_city = ''Delft'', rr_type_of_room = ''Studio''\<rparr>]"
        "\<lambda>x. Inl (LibraryError ''fit'')" "\<lambda>x y. Inl (LibraryError ''fit'')" id 20000 730
        "Some ''Delft''" None "[]" "[]"]
  by (simp add: drop_nulls_def)

end
